theory Spec2Isabelle
  imports Complex_Main
begin

section \<open>Python numbers and failures\<close>

text \<open>
  The forecaster (\<^verbatim>\<open>app.py\<close>) computes with Python numbers: integers from the
  integer widgets and floats from the GDP widgets and the literals \<^verbatim>\<open>1.8\<close>,
  \<^verbatim>\<open>25.44\<close>, \<^verbatim>\<open>3.2e9\<close>. Both are read here as real numbers, so every
  arithmetic identity below is exact. What IEEE doubles add to that is not part of the
  model: rounding, the \<^verbatim>\<open>OverflowError\<close> of \<^verbatim>\<open>**\<close>, products that overflow to
  infinity and the NaN that follows, and powers that underflow to zero. The theorems
  below are those whose statements do not depend on these effects.
  What the interpreter raises is a value of \<open>py_error\<close>: a result is \<open>Inr\<close>, a raised
  exception is \<open>Inl\<close>.
\<close>

datatype py_error =
    ZeroDivisionError
  | KeyError string
  | ComplexResult
    \<comment> \<open>a negative base under a fractional exponent: Python goes on with a complex number,
        which is outside the real-valued model\<close>

definition py_truediv :: "real \<Rightarrow> real \<Rightarrow> py_error + real" where
  \<comment> \<open>\<^verbatim>\<open>a / b\<close>\<close>
  "py_truediv a b = (if b = 0 then Inl ZeroDivisionError else Inr (a / b))"

definition py_pow :: "real \<Rightarrow> real \<Rightarrow> py_error + real" where
  \<comment> \<open>\<^verbatim>\<open>x ** y\<close> on floats: anything to the power 0 is 1, zero to a negative power raises,
      zero to a positive power is 0\<close>
  "py_pow x y =
     (if y = 0 then Inr 1
      else if x = 0 then (if y < 0 then Inl ZeroDivisionError else Inr 0)
      else if 0 < x then Inr (x powr y)
      else if y = real_of_int \<lfloor>y\<rfloor> then Inr (x powi \<lfloor>y\<rfloor>)
      else Inl ComplexResult)"

definition py_getitem :: "(string \<rightharpoonup> real) \<Rightarrow> string \<Rightarrow> py_error + real" where
  \<comment> \<open>\<^verbatim>\<open>d[k]\<close>\<close>
  "py_getitem d k = (case d k of None \<Rightarrow> Inl (KeyError k) | Some v \<Rightarrow> Inr v)"

section \<open>Constants\<close>

definition HPDC_per_ICE :: real where "HPDC_per_ICE = 190"
definition HPDC_per_HEV :: real where "HPDC_per_HEV = 240"
definition HPDC_per_EV :: real where "HPDC_per_EV = 300"

definition BASE_YEAR_GDP :: real where "BASE_YEAR_GDP = 25.44"
definition BASE_OTHER_HPDC :: real where "BASE_OTHER_HPDC = 3200000000"

section \<open>National HPDC demand\<close>

text \<open>
  \<open>estimate_hpdc_production\<close> follows the body of the Python function statement by
  statement, in its order of evaluation: the GDP ratio and its power first, the three
  dictionary reads next, the three share divisions last. The shares dictionary is an
  association list in insertion order.
\<close>

definition estimate_hpdc_production ::
  "real \<Rightarrow> real \<Rightarrow> (string \<rightharpoonup> real) \<Rightarrow> real \<Rightarrow> real \<Rightarrow> real \<Rightarrow> real
     \<Rightarrow> py_error + (real \<times> (string \<times> real) list)" where
  "estimate_hpdc_production annual_housing_starts annual_vehicle_production vehicle_mix
       base_year_gdp current_gdp base_year_other_hpdc gdp_elasticity =
     (case py_truediv current_gdp base_year_gdp of Inl e \<Rightarrow> Inl e | Inr ratio \<Rightarrow>
     (case py_pow ratio gdp_elasticity of Inl e \<Rightarrow> Inl e | Inr gdp_growth_factor \<Rightarrow>
     (let est_other_hpdc = base_year_other_hpdc * gdp_growth_factor in
     (case py_getitem vehicle_mix ''ICE'' of Inl e \<Rightarrow> Inl e | Inr ice \<Rightarrow>
     (case py_getitem vehicle_mix ''HEV'' of Inl e \<Rightarrow> Inl e | Inr hev \<Rightarrow>
     (case py_getitem vehicle_mix ''EV'' of Inl e \<Rightarrow> Inl e | Inr ev \<Rightarrow>
     (let hpdc_auto =
            ice / 100 * annual_vehicle_production * HPDC_per_ICE +
            hev / 100 * annual_vehicle_production * HPDC_per_HEV +
            ev / 100 * annual_vehicle_production * HPDC_per_EV;
          hpdc_housing = annual_housing_starts * 100;
          total_hpdc = hpdc_auto + hpdc_housing + est_other_hpdc in
     (case py_truediv hpdc_auto total_hpdc of Inl e \<Rightarrow> Inl e | Inr auto_share \<Rightarrow>
     (case py_truediv hpdc_housing total_hpdc of Inl e \<Rightarrow> Inl e | Inr housing_share \<Rightarrow>
     (case py_truediv est_other_hpdc total_hpdc of Inl e \<Rightarrow> Inl e | Inr other_share \<Rightarrow>
        Inr (total_hpdc,
             [(''Auto'', auto_share), (''Housing'', housing_share),
              (''Other'', other_share)])))))))))))"

text \<open>The dictionary the forecast tab builds from its three sliders.\<close>

definition vehicle_mix_dict :: "real \<Rightarrow> real \<Rightarrow> real \<Rightarrow> (string \<rightharpoonup> real)" where
  "vehicle_mix_dict ice hev ev = [''ICE'' \<mapsto> ice, ''HEV'' \<mapsto> hev, ''EV'' \<mapsto> ev]"

text \<open>
  The forecast tab. Its widgets give the arguments: the production, the three slider
  percentages and the housing starts are integers, the GDP and the elasticity are floats,
  and \<open>button\<close> says whether the estimate button was pressed in this run. The tab either
  warns, or does nothing, or shows the total in billions of pounds and the shares it charts;
  the numbers are the ones handed to the formatting.
\<close>

datatype forecast_view = Warning string | Idle | Forecast real "(string \<times> real) list"

definition national_forecast_tab ::
  "int \<Rightarrow> int \<Rightarrow> int \<Rightarrow> int \<Rightarrow> int \<Rightarrow> real \<Rightarrow> real \<Rightarrow> bool \<Rightarrow> py_error + forecast_view" where
  "national_forecast_tab annual_vehicle_production vehicle_mix_ice vehicle_mix_hev vehicle_mix_ev
       housing_starts gdp_current gdp_elasticity button =
     (let total_mix = vehicle_mix_ice + vehicle_mix_hev + vehicle_mix_ev in
      if total_mix \<noteq> 100 then Inr (Warning ''Vehicle mix percentages must sum to 100%.'')
      else
        let vehicle_mix = vehicle_mix_dict (real_of_int vehicle_mix_ice)
              (real_of_int vehicle_mix_hev) (real_of_int vehicle_mix_ev) in
        if button then
          (case estimate_hpdc_production (real_of_int housing_starts)
                  (real_of_int annual_vehicle_production) vehicle_mix
                  BASE_YEAR_GDP gdp_current BASE_OTHER_HPDC gdp_elasticity of
             Inl e \<Rightarrow> Inl e
           | Inr (total_hpdc, shares) \<Rightarrow> Inr (Forecast (total_hpdc / 1000000000) shares))
        else Inr Idle)"

text \<open>
  The intermediate quantities of that body, each as a function of the arguments it reads.
\<close>

definition gdp_growth_factor :: "real \<Rightarrow> real \<Rightarrow> real \<Rightarrow> py_error + real" where
  "gdp_growth_factor base_year_gdp current_gdp gdp_elasticity =
     (case py_truediv current_gdp base_year_gdp of Inl e \<Rightarrow> Inl e
      | Inr ratio \<Rightarrow> py_pow ratio gdp_elasticity)"

definition est_other_hpdc :: "real \<Rightarrow> real \<Rightarrow> real \<Rightarrow> real \<Rightarrow> py_error + real" where
  "est_other_hpdc base_year_gdp current_gdp base_year_other_hpdc gdp_elasticity =
     (case gdp_growth_factor base_year_gdp current_gdp gdp_elasticity of Inl e \<Rightarrow> Inl e
      | Inr g \<Rightarrow> Inr (base_year_other_hpdc * g))"

definition hpdc_auto :: "(string \<rightharpoonup> real) \<Rightarrow> real \<Rightarrow> py_error + real" where
  "hpdc_auto vehicle_mix annual_vehicle_production =
     (case py_getitem vehicle_mix ''ICE'' of Inl e \<Rightarrow> Inl e | Inr ice \<Rightarrow>
     (case py_getitem vehicle_mix ''HEV'' of Inl e \<Rightarrow> Inl e | Inr hev \<Rightarrow>
     (case py_getitem vehicle_mix ''EV'' of Inl e \<Rightarrow> Inl e | Inr ev \<Rightarrow>
        Inr (ice / 100 * annual_vehicle_production * HPDC_per_ICE +
             hev / 100 * annual_vehicle_production * HPDC_per_HEV +
             ev / 100 * annual_vehicle_production * HPDC_per_EV))))"

definition hpdc_housing :: "real \<Rightarrow> real" where
  "hpdc_housing annual_housing_starts = annual_housing_starts * 100"

definition total_hpdc ::
  "real \<Rightarrow> real \<Rightarrow> (string \<rightharpoonup> real) \<Rightarrow> real \<Rightarrow> real \<Rightarrow> real \<Rightarrow> real \<Rightarrow> py_error + real" where
  "total_hpdc annual_housing_starts annual_vehicle_production vehicle_mix
       base_year_gdp current_gdp base_year_other_hpdc gdp_elasticity =
     (case est_other_hpdc base_year_gdp current_gdp base_year_other_hpdc gdp_elasticity of
        Inl e \<Rightarrow> Inl e
      | Inr other \<Rightarrow>
          (case hpdc_auto vehicle_mix annual_vehicle_production of Inl e \<Rightarrow> Inl e
           | Inr auto \<Rightarrow> Inr (auto + hpdc_housing annual_housing_starts + other)))"

section \<open>Company revenue\<close>

definition predict_annual_revenue :: "real \<Rightarrow> real \<Rightarrow> real \<Rightarrow> string list \<Rightarrow> real \<times> real" where
  "predict_annual_revenue machines employees avg_tonnage markets =
     (let automotive_weight = (if ''Automotive'' \<in> set markets then 1.8 else 1.0);
          clamping_force = machines * avg_tonnage;
          revenue_per_ton = 3000;
          base_revenue = clamping_force * revenue_per_ton;
          employee_efficiency = employees * 250000
      in ((base_revenue + employee_efficiency) * automotive_weight, clamping_force))"

text \<open>
  The company tab. The three number widgets give integers; \<open>button\<close> says whether the
  revenue button was pressed. The tab shows a list of labelled metrics, here with the
  numbers handed to the formatting; \<^verbatim>\<open>if employees:\<close> is the test \<open>employees \<noteq> 0\<close>.
\<close>

definition company_revenue_tab ::
  "int \<Rightarrow> int \<Rightarrow> int \<Rightarrow> string list \<Rightarrow> bool \<Rightarrow> py_error + (string \<times> real) list" where
  "company_revenue_tab machines avg_tonnage employees markets button =
     (if button then
        (case predict_annual_revenue (real_of_int machines) (real_of_int employees)
                (real_of_int avg_tonnage) markets of
           (revenue, total_clamping_force) \<Rightarrow>
             if employees \<noteq> 0 then
               (case py_truediv revenue (real_of_int employees) of
                  Inl e \<Rightarrow> Inl e
                | Inr revenue_per_employee \<Rightarrow>
                    Inr [(''Estimated Annual Revenue'', revenue),
                         (''Total Clamping Force'', total_clamping_force),
                         (''Revenue per Employee'', revenue_per_employee)])
             else
               Inr [(''Estimated Annual Revenue'', revenue),
                    (''Total Clamping Force'', total_clamping_force)])
      else Inr [])"

section \<open>Facts about the intermediate quantities\<close>

text \<open>The automotive demand for a dictionary holding the three keys.\<close>

lemma hpdc_auto_dict:
  "hpdc_auto (vehicle_mix_dict ice hev ev) p =
     Inr (ice / 100 * p * 190 + hev / 100 * p * 240 + ev / 100 * p * 300)"
  by (simp add: hpdc_auto_def vehicle_mix_dict_def py_getitem_def
        HPDC_per_ICE_def HPDC_per_HEV_def HPDC_per_EV_def)

text \<open>
  Once the GDP power and the dictionary reads have succeeded, the function returns exactly
  when the total is not zero, and raises \<open>ZeroDivisionError\<close> at the first share
  otherwise.
\<close>

lemma estimate_hpdc_production_ok:
  assumes "est_other_hpdc bg cg bo el = Inr other"
    and "hpdc_auto mix p = Inr auto"
    and "auto + hpdc_housing hs + other \<noteq> 0"
  shows "estimate_hpdc_production hs p mix bg cg bo el =
           Inr (auto + hpdc_housing hs + other,
                [(''Auto'', auto / (auto + hpdc_housing hs + other)),
                 (''Housing'', hpdc_housing hs / (auto + hpdc_housing hs + other)),
                 (''Other'', other / (auto + hpdc_housing hs + other))])"
  using assms
  by (auto simp: estimate_hpdc_production_def est_other_hpdc_def gdp_growth_factor_def
        hpdc_auto_def hpdc_housing_def py_truediv_def Let_def split: sum.splits if_splits)

lemma estimate_hpdc_production_zero:
  assumes "est_other_hpdc bg cg bo el = Inr other"
    and "hpdc_auto mix p = Inr auto"
    and "auto + hpdc_housing hs + other = 0"
  shows "estimate_hpdc_production hs p mix bg cg bo el = Inl ZeroDivisionError"
  using assms
  by (auto simp: estimate_hpdc_production_def est_other_hpdc_def gdp_growth_factor_def
        hpdc_auto_def hpdc_housing_def py_truediv_def Let_def split: sum.splits if_splits)

lemma total_hpdc_Inr:
  "total_hpdc hs p mix bg cg bo el = Inr t \<longleftrightarrow>
     (\<exists>other auto. est_other_hpdc bg cg bo el = Inr other \<and> hpdc_auto mix p = Inr auto
        \<and> t = auto + hpdc_housing hs + other)"
  by (auto simp: total_hpdc_def split: sum.splits)

text \<open>The power and the other-sector demand on non-negative GDP figures.\<close>

lemma py_pow_zero: "py_pow x 0 = Inr 1"
  by (simp add: py_pow_def)

lemma py_pow_one: "py_pow x 1 = Inr x"
  by (cases "0 < x") (auto simp: py_pow_def)

lemma est_other_hpdc_pos_gdp:
  assumes "0 < bg" "0 < cg"
  shows "est_other_hpdc bg cg bo el = Inr (bo * (if el = 0 then 1 else (cg / bg) powr el))"
  using assms
  by (simp add: est_other_hpdc_def gdp_growth_factor_def py_truediv_def py_pow_def)

lemma est_other_hpdc_zero_gdp:
  assumes "bg \<noteq> 0" "0 \<le> el"
  shows "est_other_hpdc bg 0 bo el = Inr (if el = 0 then bo else 0)"
  using assms
  by (simp add: est_other_hpdc_def gdp_growth_factor_def py_truediv_def py_pow_def)

text \<open>
  The growth factor of the default inputs, \<open>(27.10 / 25.44) ** 0.92\<close>, lies between
  1.059878 and 1.059879: its 25th power is the 23rd power of the ratio, and powers of
  rationals are compared by computation.
\<close>

lemma growth_pow: "((2710 / 2544 :: real) powr (92/100)) ^ 25 = (2710 / 2544) ^ 23"
proof -
  have "((2710 / 2544 :: real) powr (92/100)) ^ 25 = ((2710 / 2544) powr (92/100)) powr 25"
    by (simp add: powr_realpow del: powr_powr)
  also have "\<dots> = (2710 / 2544 :: real) powr 23" by (simp add: powr_powr)
  also have "\<dots> = (2710 / 2544) ^ 23" by (simp add: powr_realpow)
  finally show ?thesis .
qed

lemma growth_lower: "(1059878 / 1000000 :: real) < (2710 / 2544) powr (92/100)"
proof (rule ccontr)
  assume "\<not> ?thesis"
  then have "(2710 / 2544 :: real) powr (92/100) \<le> 1059878 / 1000000" by simp
  then have "((2710 / 2544 :: real) powr (92/100)) ^ 25 \<le> (1059878 / 1000000) ^ 25"
    by (intro power_mono) simp_all
  then have "(2710 / 2544 :: real) ^ 23 \<le> (1059878 / 1000000) ^ 25"
    by (simp only: growth_pow)
  then show False by (simp add: divide_simps)
qed

lemma growth_upper: "(2710 / 2544 :: real) powr (92/100) < 1059879 / 1000000"
proof (rule ccontr)
  assume "\<not> ?thesis"
  then have "1059879 / 1000000 \<le> (2710 / 2544 :: real) powr (92/100)" by simp
  then have "(1059879 / 1000000) ^ 25 \<le> ((2710 / 2544 :: real) powr (92/100)) ^ 25"
    by (intro power_mono) simp_all
  then have "(1059879 / 1000000) ^ 25 \<le> (2710 / 2544 :: real) ^ 23"
    by (simp only: growth_pow)
  then show False by (simp add: divide_simps)
qed

section \<open>A mix that does not sum to 100\<close>

text \<open>
  The function itself does not look at the sum of the mix: for the percentages 50, 30 and
  10 it computes a total and three shares like for any other dictionary.
\<close>

theorem mix_sum_90_counterexample:
  "estimate_hpdc_production 1400000 11200000 (vehicle_mix_dict 50 30 10)
       25.44 25.44 3200000000 0.92
     = Inr (5546400000,
            [(''Auto'', 2206400000 / 5546400000), (''Housing'', 140000000 / 5546400000),
             (''Other'', 3200000000 / 5546400000)])"
  by (simp add: estimate_hpdc_production_def py_truediv_def py_pow_def py_getitem_def
      vehicle_mix_dict_def Let_def HPDC_per_ICE_def HPDC_per_HEV_def HPDC_per_EV_def)

text \<open>
  C2 (amended). The check is the forecast tab's: for slider percentages whose sum is not
  100 the tab shows the warning and does not call \<open>estimate_hpdc_production\<close>,
  whether or not the button is pressed; the function has no check of its own and raises
  no error for such a mix.
\<close>

theorem mix_not_100_warns:
  assumes "ice + hev + ev \<noteq> 100"
  shows "national_forecast_tab p ice hev ev hs cg el button
           = Inr (Warning ''Vehicle mix percentages must sum to 100%.'')"
  using assms by (simp add: national_forecast_tab_def)

theorem mix_not_100_warns_witness:
  "national_forecast_tab 11200000 50 30 10 1400000 27.10 0.92 True
     = Inr (Warning ''Vehicle mix percentages must sum to 100%.'')"
  using mix_not_100_warns [where ice = 50 and hev = 30 and ev = 10 and p = 11200000
      and hs = 1400000 and cg = "27.10" and el = "0.92" and button = True]
  by simp

section \<open>A total demand of zero\<close>

text \<open>
  With no production, no housing starts and a current GDP of zero the total is computed,
  is zero, and the first share division raises Python's own \<open>ZeroDivisionError\<close>:
  the numeric error is what the caller sees.
\<close>

theorem zero_total_counterexample:
  "total_hpdc 0 0 (vehicle_mix_dict 100 0 0) 25.44 0 3200000000 1 = Inr 0
   \<and> estimate_hpdc_production 0 0 (vehicle_mix_dict 100 0 0) 25.44 0 3200000000 1
       = Inl ZeroDivisionError"
proof -
  have "total_hpdc 0 0 (vehicle_mix_dict 100 0 0) 25.44 0 3200000000 1 = Inr 0"
    by (simp add: total_hpdc_def est_other_hpdc_zero_gdp hpdc_auto_dict hpdc_housing_def)
  moreover
  have "estimate_hpdc_production 0 0 (vehicle_mix_dict 100 0 0) 25.44 0 3200000000 1
          = Inl ZeroDivisionError"
    by (simp add: estimate_hpdc_production_def py_truediv_def py_pow_one py_getitem_def
        vehicle_mix_dict_def Let_def)
  ultimately show ?thesis by simp
qed

text \<open>
  C3 (amended). For inputs that make the total demand zero, \<open>estimate_hpdc_production\<close>
  returns nothing and raises \<open>ZeroDivisionError\<close> from the share division; it has no
  guard and no error of its own for this case, and no NaN or infinity is returned.
\<close>

theorem zero_total_raises:
  assumes "total_hpdc hs p mix bg cg bo el = Inr 0"
  shows "estimate_hpdc_production hs p mix bg cg bo el = Inl ZeroDivisionError"
  using assms by (auto simp: total_hpdc_Inr intro: estimate_hpdc_production_zero)

theorem zero_total_raises_witness:
  "total_hpdc 0 0 (vehicle_mix_dict 45 25 30) 25.44 0 3200000000 0.5 = Inr 0
   \<and> estimate_hpdc_production 0 0 (vehicle_mix_dict 45 25 30) 25.44 0 3200000000 0.5
       = Inl ZeroDivisionError"
proof -
  have total: "total_hpdc 0 0 (vehicle_mix_dict 45 25 30) 25.44 0 3200000000 0.5 = Inr 0"
    by (simp add: total_hpdc_def est_other_hpdc_zero_gdp hpdc_auto_dict hpdc_housing_def)
  show ?thesis
    using total zero_total_raises [OF total] by simp
qed

section \<open>The default inputs of the forecast tab\<close>

text \<open>
  The automotive demand for 11,200,000 vehicles at 45, 25 and 30 percent is
  957,600,000 + 672,000,000 + 1,008,000,000 = 2,637,600,000 pounds, not 2,636,400,000.
\<close>

theorem default_auto_demand_counterexample:
  "hpdc_auto (vehicle_mix_dict 45 25 30) 11200000 = Inr 2637600000
   \<and> hpdc_auto (vehicle_mix_dict 45 25 30) 11200000 \<noteq> Inr 2636400000"
  by (simp add: hpdc_auto_dict)

text \<open>
  C4 (amended). On vehicle production 11,200,000, mix 45/25/30, housing starts 1,400,000,
  current GDP 27.10, base GDP 25.44, baseline other demand 3.2e9 and elasticity 0.92, the
  function returns: automotive demand 2,637,600,000; housing demand 140,000,000; other
  demand between 3,391,609,600 and 3,391,612,800; total between 6,169,209,600 and
  6,169,212,800; the shares Auto, Housing and Other within 0.42754..0.42755,
  0.02269..0.02270 and 0.54976..0.54977, that is about 0.4275, 0.0227 and 0.5498.
\<close>

theorem default_forecast:
  "\<exists>total auto_share housing_share other_share other.
     estimate_hpdc_production 1400000 11200000 (vehicle_mix_dict 45 25 30)
         BASE_YEAR_GDP 27.10 BASE_OTHER_HPDC 0.92
       = Inr (total, [(''Auto'', auto_share), (''Housing'', housing_share),
                      (''Other'', other_share)])
     \<and> BASE_YEAR_GDP = 25.44 \<and> BASE_OTHER_HPDC = 3200000000
     \<and> hpdc_auto (vehicle_mix_dict 45 25 30) 11200000 = Inr 2637600000
     \<and> hpdc_housing 1400000 = 140000000
     \<and> est_other_hpdc BASE_YEAR_GDP 27.10 BASE_OTHER_HPDC 0.92 = Inr other
     \<and> total = 2637600000 + 140000000 + other
     \<and> 3391609600 < other \<and> other < 3391612800
     \<and> 6169209600 < total \<and> total < 6169212800
     \<and> 0.42754 < auto_share \<and> auto_share < 0.42755
     \<and> 0.02269 < housing_share \<and> housing_share < 0.02270
     \<and> 0.54976 < other_share \<and> other_share < 0.54977"
proof -
  define g :: real where "g = (2710 / 2544) powr (92 / 100)"
  have g: "1059878 / 1000000 < g" "g < 1059879 / 1000000"
    using growth_lower growth_upper by (simp_all add: g_def)
  define other where "other = 3200000000 * g"
  define total where "total = 2637600000 + 140000000 + other"
  have other: "est_other_hpdc BASE_YEAR_GDP 27.10 BASE_OTHER_HPDC 0.92 = Inr other"
    by (simp add: est_other_hpdc_pos_gdp BASE_YEAR_GDP_def BASE_OTHER_HPDC_def other_def g_def)
  have auto: "hpdc_auto (vehicle_mix_dict 45 25 30) 11200000 = Inr 2637600000"
    by (simp add: hpdc_auto_dict)
  have housing: "hpdc_housing 1400000 = 140000000"
    by (simp add: hpdc_housing_def)
  have ob: "3391609600 < other" "other < 3391612800"
    using g by (simp_all add: other_def)
  have tb: "6169209600 < total" "total < 6169212800"
    using ob by (simp_all add: total_def)
  have tpos: "0 < total" using tb by simp
  have nz: "2637600000 + hpdc_housing 1400000 + other \<noteq> 0"
    using ob by (simp add: housing)
  have est: "estimate_hpdc_production 1400000 11200000 (vehicle_mix_dict 45 25 30)
         BASE_YEAR_GDP 27.10 BASE_OTHER_HPDC 0.92
       = Inr (total, [(''Auto'', 2637600000 / total), (''Housing'', 140000000 / total),
                      (''Other'', other / total)])"
    using estimate_hpdc_production_ok [OF other auto nz] by (simp add: housing total_def)
  have a: "0.42754 < 2637600000 / total" "2637600000 / total < 0.42755"
    using tb tpos by (simp_all add: pos_less_divide_eq pos_divide_less_eq)
  have h: "0.02269 < 140000000 / total" "140000000 / total < 0.02270"
    using tb tpos by (simp_all add: pos_less_divide_eq pos_divide_less_eq)
  have o1: "0.54976 * total < other" "other < 0.54977 * total"
    using ob by (simp_all add: total_def)
  have oth: "0.54976 < other / total" "other / total < 0.54977"
    using o1 tpos by (simp_all add: pos_less_divide_eq pos_divide_less_eq)
  have base: "BASE_YEAR_GDP = 25.44" "BASE_OTHER_HPDC = 3200000000"
    by (simp_all add: BASE_YEAR_GDP_def BASE_OTHER_HPDC_def)
  have tot: "total = 2637600000 + 140000000 + other" by (simp add: total_def)
  show ?thesis
    using est base auto housing other tot ob tb a h oth by blast
qed

section \<open>The GDP elasticity\<close>

text \<open>
  C6. For a base GDP other than zero and a mix holding the three keys, an elasticity of 0
  makes the other-sector demand inside \<open>estimate_hpdc_production\<close> the baseline other
  demand, whatever the current GDP is: the returned total is the automotive demand plus
  the housing demand plus the baseline, the Other share is the baseline over that total,
  and the whole result does not depend on the current GDP. An elasticity of 1 makes the
  other-sector demand the baseline times \<open>current_gdp / base_year_gdp\<close>, in the total
  and in the Other share alike. In both cases a total of zero raises
  \<open>ZeroDivisionError\<close>.
\<close>

theorem elasticity_zero_and_one:
  assumes "bg \<noteq> 0"
  shows
    "(let auto = ice / 100 * p * 190 + hev / 100 * p * 240 + ev / 100 * p * 300;
          housing = hs * 100;
          other = bo;
          total = auto + housing + other
      in estimate_hpdc_production hs p (vehicle_mix_dict ice hev ev) bg cg bo 0 =
           (if total = 0 then Inl ZeroDivisionError
            else Inr (total, [(''Auto'', auto / total), (''Housing'', housing / total),
                              (''Other'', other / total)])))
     \<and> (let auto = ice / 100 * p * 190 + hev / 100 * p * 240 + ev / 100 * p * 300;
            housing = hs * 100;
            other = bo * (cg / bg);
            total = auto + housing + other
        in estimate_hpdc_production hs p (vehicle_mix_dict ice hev ev) bg cg bo 1 =
             (if total = 0 then Inl ZeroDivisionError
              else Inr (total, [(''Auto'', auto / total), (''Housing'', housing / total),
                                (''Other'', other / total)])))
     \<and> estimate_hpdc_production hs p mix bg cg bo 0
         = estimate_hpdc_production hs p mix bg cg' bo 0"
proof (intro conjI)
  show "let auto = ice / 100 * p * 190 + hev / 100 * p * 240 + ev / 100 * p * 300;
            housing = hs * 100;
            other = bo;
            total = auto + housing + other
        in estimate_hpdc_production hs p (vehicle_mix_dict ice hev ev) bg cg bo 0 =
             (if total = 0 then Inl ZeroDivisionError
              else Inr (total, [(''Auto'', auto / total), (''Housing'', housing / total),
                                (''Other'', other / total)]))"
    using assms
    by (simp add: estimate_hpdc_production_def py_truediv_def py_pow_zero py_getitem_def
        vehicle_mix_dict_def Let_def HPDC_per_ICE_def HPDC_per_HEV_def HPDC_per_EV_def)
  show "let auto = ice / 100 * p * 190 + hev / 100 * p * 240 + ev / 100 * p * 300;
            housing = hs * 100;
            other = bo * (cg / bg);
            total = auto + housing + other
        in estimate_hpdc_production hs p (vehicle_mix_dict ice hev ev) bg cg bo 1 =
             (if total = 0 then Inl ZeroDivisionError
              else Inr (total, [(''Auto'', auto / total), (''Housing'', housing / total),
                                (''Other'', other / total)]))"
    using assms
    by (simp add: estimate_hpdc_production_def py_truediv_def py_pow_one py_getitem_def
        vehicle_mix_dict_def Let_def HPDC_per_ICE_def HPDC_per_HEV_def HPDC_per_EV_def)
  show "estimate_hpdc_production hs p mix bg cg bo 0
          = estimate_hpdc_production hs p mix bg cg' bo 0"
    using assms by (simp add: estimate_hpdc_production_def py_truediv_def py_pow_zero)
qed

theorem elasticity_zero_and_one_witness:
  "estimate_hpdc_production 1400000 11200000 (vehicle_mix_dict 45 25 30)
       25.44 27.10 3200000000 0
     = Inr (5977600000,
            [(''Auto'', 2637600000 / 5977600000), (''Housing'', 140000000 / 5977600000),
             (''Other'', 3200000000 / 5977600000)])
   \<and> estimate_hpdc_production 1400000 11200000 (vehicle_mix_dict 45 25 30)
         25.44 50.88 3200000000 1
     = Inr (9177600000,
            [(''Auto'', 2637600000 / 9177600000), (''Housing'', 140000000 / 9177600000),
             (''Other'', 6400000000 / 9177600000)])
   \<and> estimate_hpdc_production 1400000 11200000 (vehicle_mix_dict 45 25 30)
         25.44 27.10 3200000000 0
     = estimate_hpdc_production 1400000 11200000 (vehicle_mix_dict 45 25 30)
         25.44 99 3200000000 0"
proof -
  have nz: "(25.44::real) \<noteq> 0" by simp
  note at_27 = elasticity_zero_and_one [OF nz, where cg = "27.10" and bo = 3200000000
      and hs = 1400000 and p = 11200000 and ice = 45 and hev = 25 and ev = 30
      and mix = "vehicle_mix_dict 45 25 30" and cg' = 99]
  note at_50 = elasticity_zero_and_one [OF nz, where cg = "50.88" and bo = 3200000000
      and hs = 1400000 and p = 11200000 and ice = 45 and hev = 25 and ev = 30]
  have zero: "estimate_hpdc_production 1400000 11200000 (vehicle_mix_dict 45 25 30)
       25.44 27.10 3200000000 0
     = Inr (5977600000,
            [(''Auto'', 2637600000 / 5977600000), (''Housing'', 140000000 / 5977600000),
             (''Other'', 3200000000 / 5977600000)])"
    using at_27 [THEN conjunct1] by (simp add: Let_def)
  have one: "estimate_hpdc_production 1400000 11200000 (vehicle_mix_dict 45 25 30)
         25.44 50.88 3200000000 1
     = Inr (9177600000,
            [(''Auto'', 2637600000 / 9177600000), (''Housing'', 140000000 / 9177600000),
             (''Other'', 6400000000 / 9177600000)])"
    using at_50 [THEN conjunct2, THEN conjunct1] by (simp add: Let_def)
  show ?thesis
    using zero one at_27 [THEN conjunct2, THEN conjunct2] by blast
qed

section \<open>Company revenue: the closed form\<close>

text \<open>
  C5. For every company profile, \<open>predict_annual_revenue\<close> returns the clamping force
  \<open>machines * avg_tonnage\<close> and the revenue
  \<open>(clamping_force * 3000 + employees * 250000) * multiplier\<close>, where the multiplier is
  1.8 when Automotive is among the markets and 1.0 otherwise; for 10 machines of 200 tons,
  50 employees and the single market Automotive it returns the clamping force 2000 and the
  revenue 33,300,000.
\<close>

theorem predict_annual_revenue_formula:
  "snd (predict_annual_revenue machines employees avg_tonnage markets) = machines * avg_tonnage
   \<and> fst (predict_annual_revenue machines employees avg_tonnage markets) =
       (machines * avg_tonnage * 3000 + employees * 250000)
         * (if ''Automotive'' \<in> set markets then 1.8 else 1.0)
   \<and> predict_annual_revenue 10 50 200 [''Automotive''] = (33300000, 2000)"
  by (simp add: predict_annual_revenue_def Let_def)

theorem predict_annual_revenue_formula_witness:
  "predict_annual_revenue 4 7 150 [''Medical'', ''Automotive'']
     = ((4 * 150 * 3000 + 7 * 250000) * 1.8, 4 * 150)
   \<and> predict_annual_revenue 4 7 150 [''Medical'']
     = ((4 * 150 * 3000 + 7 * 250000) * 1.0, 4 * 150)"
  using predict_annual_revenue_formula [of 4 7 150 "[''Medical'', ''Automotive'']"]
        predict_annual_revenue_formula [of 4 7 150 "[''Medical'']"]
  by (simp add: prod_eq_iff)

text \<open>
  C7. The result depends on the markets only through the membership of Automotive: two
  market lists that agree on it give the same revenue and the same clamping force, whatever
  they hold of Medical, Consumer, Industrial and Aerospace; with Industrial as the only
  market the profile of 10 machines, 200 tons and 50 employees yields 18,500,000.
\<close>

theorem markets_only_automotive:
  "((''Automotive'' \<in> set markets) = (''Automotive'' \<in> set markets')
      \<longrightarrow> predict_annual_revenue m e t markets = predict_annual_revenue m e t markets')
   \<and> predict_annual_revenue 10 50 200 [''Industrial''] = (18500000, 2000)"
  by (simp add: predict_annual_revenue_def Let_def)

theorem markets_only_automotive_witness:
  "predict_annual_revenue 10 50 200 [''Automotive'', ''Medical'']
     = predict_annual_revenue 10 50 200 [''Aerospace'', ''Consumer'', ''Automotive'']
   \<and> predict_annual_revenue 10 50 200 [''Industrial'']
     = predict_annual_revenue 10 50 200 [''Medical'', ''Aerospace'']"
  using markets_only_automotive [where markets = "[''Automotive'', ''Medical'']"
      and markets' = "[''Aerospace'', ''Consumer'', ''Automotive'']"
      and m = 10 and e = 50 and t = 200]
    markets_only_automotive [where markets = "[''Industrial'']"
      and markets' = "[''Medical'', ''Aerospace'']" and m = 10 and e = 50 and t = 200]
  by simp

text \<open>
  C9. For a fixed market list and non-negative machines, tonnage and employees, the
  revenue does not decrease when one of the three is increased and the other two are kept.
\<close>

theorem revenue_monotone:
  assumes "0 \<le> m" "0 \<le> t" "0 \<le> e"
  shows "(m \<le> m' \<longrightarrow> fst (predict_annual_revenue m e t markets)
                        \<le> fst (predict_annual_revenue m' e t markets))
       \<and> (t \<le> t' \<longrightarrow> fst (predict_annual_revenue m e t markets)
                        \<le> fst (predict_annual_revenue m e t' markets))
       \<and> (e \<le> e' \<longrightarrow> fst (predict_annual_revenue m e t markets)
                        \<le> fst (predict_annual_revenue m e' t markets))"
  using assms
  by (auto simp: predict_annual_revenue_def Let_def mult_right_mono mult_left_mono)

theorem revenue_monotone_witness:
  "fst (predict_annual_revenue 10 50 200 [''Automotive''])
     \<le> fst (predict_annual_revenue 12 50 200 [''Automotive''])
   \<and> fst (predict_annual_revenue 10 50 200 [''Automotive''])
     \<le> fst (predict_annual_revenue 10 50 250 [''Automotive''])
   \<and> fst (predict_annual_revenue 10 50 200 [''Automotive''])
     \<le> fst (predict_annual_revenue 10 60 200 [''Automotive''])"
  using revenue_monotone [where m = 10 and t = 200 and e = 50 and m' = 12 and t' = 250
      and e' = 60 and markets = "[''Automotive'']"]
  by simp

section \<open>Revenue per employee\<close>

text \<open>
  C8. With no employees the company tab shows the revenue and the clamping force only: no
  revenue per employee and no division error. With a positive number of employees it also
  shows the revenue divided by the number of employees.
\<close>

theorem revenue_per_employee_conditional:
  "company_revenue_tab m t 0 markets True =
     Inr [(''Estimated Annual Revenue'',
             fst (predict_annual_revenue (real_of_int m) 0 (real_of_int t) markets)),
          (''Total Clamping Force'',
             snd (predict_annual_revenue (real_of_int m) 0 (real_of_int t) markets))]
   \<and> (0 < e \<longrightarrow>
       company_revenue_tab m t e markets True =
         Inr [(''Estimated Annual Revenue'',
                 fst (predict_annual_revenue (real_of_int m) (real_of_int e) (real_of_int t) markets)),
              (''Total Clamping Force'',
                 snd (predict_annual_revenue (real_of_int m) (real_of_int e) (real_of_int t) markets)),
              (''Revenue per Employee'',
                 fst (predict_annual_revenue (real_of_int m) (real_of_int e) (real_of_int t) markets)
                   / real_of_int e)])"
  by (simp add: company_revenue_tab_def py_truediv_def split: prod.splits)

theorem revenue_per_employee_conditional_witness:
  "company_revenue_tab 10 200 50 [''Automotive''] True
     = Inr [(''Estimated Annual Revenue'', 33300000), (''Total Clamping Force'', 2000),
            (''Revenue per Employee'', 666000)]
   \<and> company_revenue_tab 10 200 0 [''Automotive''] True
     = Inr [(''Estimated Annual Revenue'', 10800000), (''Total Clamping Force'', 2000)]"
  using revenue_per_employee_conditional [where m = 10 and t = 200 and e = 50
      and markets = "[''Automotive'']"]
  by (simp add: predict_annual_revenue_def)

end
